theory Spec2Isabelle
  imports Main "HOL-Library.Multiset"
begin

section \<open>Feature column utilities (feature\_column\_ops.py)\<close>

subsection \<open>Data model\<close>

text \<open>
  The module works on feature column objects whose class lives in another module
  (\<open>feature_column\<close>, imported as \<open>fc\<close>). The functions here only use five members of
  a column: the attributes \<open>key\<close> and \<open>name\<close> and the methods
  \<open>insert_transformed_feature\<close>, \<open>to_dnn_input_layer\<close> and \<open>to_weighted_sum\<close>; and
  one helper of that module, \<open>fc._add_variable_collection\<close>. What this file uses of the
  other module is therefore a record of these six, the members indexed by the column
  object \<open>'c\<close>; \<open>'k\<close> is the type of keys, \<open>'t\<close> of tensors, \<open>'w\<close> of what a column
  returns as its weight variable (one variable or a list of them).

  A method of a column may raise: it returns \<open>Some msg\<close> / \<open>Inl msg\<close> then. Python
  mutates its arguments in place, so a method that raises still returns the mapping or
  graph as it left it.
\<close>

datatype 'c ckey = Name string | Column 'c

datatype 'k error =
    DuplicateKey 'k
  | ColumnNotSupported string
  | Raised string

datatype 't variable = Variable (initial_value: 't) (var_name: string)

type_synonym 't graph = "(string \<times> 't variable) list"

record ('c, 'k, 't, 'w) feature_column =
  key :: "'c \<Rightarrow> 'k"
  name :: "'c \<Rightarrow> string"
  insert_transformed_feature ::
    "'c \<Rightarrow> ('c ckey \<rightharpoonup> 't) \<Rightarrow> string option \<times> ('c ckey \<rightharpoonup> 't)"
  to_dnn_input_layer ::
    "'c \<Rightarrow> 't \<Rightarrow> string list option \<Rightarrow> bool \<Rightarrow> 't graph \<Rightarrow> (string + 't) \<times> 't graph"
  to_weighted_sum ::
    "'c \<Rightarrow> 't \<Rightarrow> nat \<Rightarrow> string list option \<Rightarrow> bool \<Rightarrow> 't graph
       \<Rightarrow> (string + 't \<times> 'w) \<times> 't graph"
  add_variable_collection :: "string list option \<Rightarrow> string list option"

subsection \<open>check\_feature\_columns\<close>

text \<open>
  The loop of \<open>check_feature_columns\<close>: \<open>seen_keys\<close> is the set built so far, the list
  is what is left of the iteration. The first column whose key is already in
  \<open>seen_keys\<close> raises.
\<close>

fun check_loop :: "('c \<Rightarrow> 'k) \<Rightarrow> 'k set \<Rightarrow> 'c list \<Rightarrow> 'k error + unit" where
  "check_loop kf seen_keys [] = Inr ()"
| "check_loop kf seen_keys (f # fs) =
     (if kf f \<in> seen_keys then Inl (DuplicateKey (kf f))
      else check_loop kf (insert (kf f) seen_keys) fs)"

definition check_feature_columns ::
  "('c, 'k, 't, 'w) feature_column \<Rightarrow> 'c list \<Rightarrow> 'k error + unit" where
  "check_feature_columns cls feature_columns = check_loop (key cls) {} feature_columns"

subsection \<open>The Transformer\<close>

text \<open>
  A \<open>_Transformer\<close> holds a reference to the caller's \<open>columns_to_tensors\<close> dictionary,
  whose keys are strings (base features) and feature columns (transformed features).
  The field \<open>delegated\<close> is the trace of line 359: the columns whose
  \<open>insert_transformed_feature\<close> the transformer has called, oldest first. The source
  keeps no such list; it is here so that "the method is (not) invoked" can be stated.
\<close>

record ('c, 't) transformer =
  columns_to_tensors :: "'c ckey \<rightharpoonup> 't"
  delegated :: "'c list"

definition Transformer :: "('c ckey \<rightharpoonup> 't) \<Rightarrow> ('c, 't) transformer" where
  "Transformer c2t = \<lparr>columns_to_tensors = c2t, delegated = []\<rparr>"

text \<open>
  \<open>transform\<close>: a column that is a key of the dictionary is returned as stored. Any other
  column is handed to its own \<open>insert_transformed_feature\<close>, which works on the
  dictionary in place; an exception of that method propagates; when the method returns
  and the column is still no key, \<open>ValueError('Column ... is not supported.')\<close> is
  raised.
\<close>

definition transform ::
  "('c, 'k, 't, 'w) feature_column \<Rightarrow> 'c \<Rightarrow> ('c, 't) transformer
     \<Rightarrow> ('k error + 't) \<times> ('c, 't) transformer" where
  "transform cls feature_column s =
     (case columns_to_tensors s (Column feature_column) of
        Some t \<Rightarrow> (Inr t, s)
      | None \<Rightarrow>
          (case insert_transformed_feature cls feature_column (columns_to_tensors s) of
             (raised, c2t) \<Rightarrow>
               (let s' = s\<lparr>columns_to_tensors := c2t,
                              delegated := delegated s @ [feature_column]\<rparr>
                in case raised of
                     Some msg \<Rightarrow> (Inl (Raised msg), s')
                   | None \<Rightarrow>
                       (case c2t (Column feature_column) of
                          None \<Rightarrow> (Inl (ColumnNotSupported (name cls feature_column)), s')
                        | Some t \<Rightarrow> (Inr t, s')))))"



subsection \<open>Graph collections and variables\<close>

text \<open>
  A graph is the list of registrations made so far, each a collection name with the
  variable added to it; \<open>get_collection\<close> reads one collection in registration order.
\<close>

definition GraphKeys_VARIABLES :: string where
  "GraphKeys_VARIABLES = ''variables''"

definition GraphKeys_TRAINABLE_VARIABLES :: string where
  "GraphKeys_TRAINABLE_VARIABLES = ''trainable_variables''"

definition get_collection :: "'t graph \<Rightarrow> string \<Rightarrow> 't variable list" where
  "get_collection g collection = map snd (filter (\<lambda>r. fst r = collection) g)"

text \<open>
  Lines 94-96: a non-empty list of weight collections gets \<open>GraphKeys.VARIABLES\<close> added,
  without duplicates; \<open>None\<close> and the empty list are left as they are. (The order of
  \<open>list(set(...))\<close> is not specified; \<open>remdups\<close> is one order.)
\<close>

definition add_variables_key :: "string list option \<Rightarrow> string list option" where
  "add_variables_key weight_collections =
     (case weight_collections of
        None \<Rightarrow> None
      | Some cs \<Rightarrow> if cs = [] then Some [] else Some (remdups (cs @ [GraphKeys_VARIABLES])))"

text \<open>
  Modelled from the spec: the constructor \<open>variables.Variable\<close> is not in this file. A
  variable is registered in the collections it is given (\<open>GraphKeys.VARIABLES\<close> when none
  is given) and, when its \<open>trainable\<close> flag is set, in
  \<open>GraphKeys.TRAINABLE_VARIABLES\<close> as well ("a trainable flag controlling whether
  created weights are registered for gradient updates"). The flag is a keyword argument
  of the constructor with default \<open>True\<close>.
\<close>

definition variables_Variable ::
  "'t \<Rightarrow> bool \<Rightarrow> string list option \<Rightarrow> string \<Rightarrow> 't graph \<Rightarrow> 't variable \<times> 't graph" where
  "variables_Variable initial trainable collections nm g =
     (let cs = (case collections of None \<Rightarrow> [GraphKeys_VARIABLES] | Some cs \<Rightarrow> cs);
          cs' = (if trainable \<and> GraphKeys_TRAINABLE_VARIABLES \<notin> set cs
                 then cs @ [GraphKeys_TRAINABLE_VARIABLES] else cs);
          v = Variable initial nm
      in (v, g @ map (\<lambda>c. (c, v)) cs'))"

text \<open>
  The tensor operations of the framework that the builders call, as parameters:
  \<open>array_ops.concat\<close>, \<open>math_ops.add_n\<close>, \<open>array_ops.zeros\<close> and \<open>nn_ops.bias_add\<close>.
\<close>

record 't tensor_ops =
  array_ops_concat :: "nat \<Rightarrow> 't list \<Rightarrow> 't"
  math_ops_add_n :: "'t list \<Rightarrow> 't"
  array_ops_zeros :: "nat list \<Rightarrow> 't"
  nn_ops_bias_add :: "'t \<Rightarrow> 't variable \<Rightarrow> 't"

subsection \<open>input\_from\_feature\_columns\<close>

text \<open>
  The columns are visited in the order of \<open>sorted(set(feature_columns), key=...)\<close>.
  The order in which a set is iterated is not specified; \<open>remdups\<close> is one order. After
  the validation the keys are pairwise distinct, and then the sorted list is the same for
  every order (lemma \<open>sorted_columns_permutation\<close> below). The \<open>variable_op_scope\<close> of
  the builders only names the operations and is left out, with the argument \<open>name\<close>.
\<close>

definition sorted_columns :: "('c, 'k::linorder, 't, 'w) feature_column \<Rightarrow> 'c list \<Rightarrow> 'c list" where
  "sorted_columns cls feature_columns = sort_key (key cls) (remdups feature_columns)"

text \<open>
  The loop of lines 98-101, with \<open>output_tensors\<close> as accumulator. A column that
  \<open>transform\<close> rejects, or whose \<open>to_dnn_input_layer\<close> raises, ends the loop.
\<close>

fun input_loop ::
  "('c, 'k, 't, 'w) feature_column \<Rightarrow> string list option \<Rightarrow> bool \<Rightarrow> 'c list \<Rightarrow> 't list
     \<Rightarrow> ('c, 't) transformer \<Rightarrow> 't graph
     \<Rightarrow> ('k error + 't list) \<times> ('c, 't) transformer \<times> 't graph" where
  "input_loop cls weight_collections trainable [] output_tensors s g =
     (Inr output_tensors, s, g)"
| "input_loop cls weight_collections trainable (column # columns) output_tensors s g =
     (case transform cls column s of
        (Inl e, s') \<Rightarrow> (Inl e, s', g)
      | (Inr transformed_tensor, s') \<Rightarrow>
          (case to_dnn_input_layer cls column transformed_tensor weight_collections trainable g of
             (Inl msg, g') \<Rightarrow> (Inl (Raised msg), s', g')
           | (Inr out, g') \<Rightarrow>
               input_loop cls weight_collections trainable columns (output_tensors @ [out]) s' g'))"

text \<open>
  The builder returns its result together with the dictionary and the graph as the call
  leaves them (both are mutated in place by the source).
\<close>

definition input_from_feature_columns ::
  "'t tensor_ops \<Rightarrow> ('c, 'k::linorder, 't, 'w) feature_column \<Rightarrow> ('c ckey \<rightharpoonup> 't) \<Rightarrow> 'c list
     \<Rightarrow> string list option \<Rightarrow> bool \<Rightarrow> 't graph
     \<Rightarrow> ('k error + 't) \<times> ('c ckey \<rightharpoonup> 't) \<times> 't graph" where
  "input_from_feature_columns ops cls c2t feature_columns weight_collections trainable g =
     (case check_feature_columns cls feature_columns of
        Inl e \<Rightarrow> (Inl e, c2t, g)
      | Inr _ \<Rightarrow>
          (case input_loop cls (add_variables_key weight_collections) trainable
                  (sorted_columns cls feature_columns) [] (Transformer c2t) g of
             (Inl e, s, g') \<Rightarrow> (Inl e, columns_to_tensors s, g')
           | (Inr output_tensors, s, g') \<Rightarrow>
               (Inr (array_ops_concat ops 1 output_tensors), columns_to_tensors s, g')))"

subsection \<open>weighted\_sum\_from\_feature\_columns\<close>

text \<open>
  The loop of lines 172-180, with \<open>output_tensors\<close> and \<open>column_to_variable\<close> as
  accumulators. (\<open>_log_variable\<close> only writes to the log and is left out.)
\<close>

fun weighted_loop ::
  "('c, 'k, 't, 'w) feature_column \<Rightarrow> nat \<Rightarrow> string list option \<Rightarrow> bool \<Rightarrow> 'c list
     \<Rightarrow> 't list \<Rightarrow> ('c \<rightharpoonup> 'w) \<Rightarrow> ('c, 't) transformer \<Rightarrow> 't graph
     \<Rightarrow> ('k error + 't list \<times> ('c \<rightharpoonup> 'w)) \<times> ('c, 't) transformer \<times> 't graph" where
  "weighted_loop cls num_outputs weight_collections trainable [] output_tensors
       column_to_variable s g =
     (Inr (output_tensors, column_to_variable), s, g)"
| "weighted_loop cls num_outputs weight_collections trainable (column # columns) output_tensors
       column_to_variable s g =
     (case transform cls column s of
        (Inl e, s') \<Rightarrow> (Inl e, s', g)
      | (Inr transformed_tensor, s') \<Rightarrow>
          (case to_weighted_sum cls column transformed_tensor num_outputs weight_collections
                  trainable g of
             (Inl msg, g') \<Rightarrow> (Inl (Raised msg), s', g')
           | (Inr (predictions, variable), g') \<Rightarrow>
               weighted_loop cls num_outputs weight_collections trainable columns
                 (output_tensors @ [predictions]) (column_to_variable(column \<mapsto> variable))
                 s' g'))"

text \<open>
  Lines 182-190. The bias is created by \<open>variables.Variable(zeros, collections=..., name=...)\<close>:
  the call passes no \<open>trainable\<close> argument, so the constructor's default applies. The
  collections are what \<open>fc._add_variable_collection\<close> makes of \<open>weight_collections\<close>.
\<close>

definition weighted_sum_from_feature_columns ::
  "'t tensor_ops \<Rightarrow> ('c, 'k::linorder, 't, 'w) feature_column \<Rightarrow> ('c ckey \<rightharpoonup> 't) \<Rightarrow> 'c list
     \<Rightarrow> nat \<Rightarrow> string list option \<Rightarrow> bool \<Rightarrow> 't graph
     \<Rightarrow> ('k error + 't \<times> ('c \<rightharpoonup> 'w) \<times> 't variable) \<times> ('c ckey \<rightharpoonup> 't) \<times> 't graph" where
  "weighted_sum_from_feature_columns ops cls c2t feature_columns num_outputs weight_collections
       trainable g =
     (case check_feature_columns cls feature_columns of
        Inl e \<Rightarrow> (Inl e, c2t, g)
      | Inr _ \<Rightarrow>
          (case weighted_loop cls num_outputs weight_collections trainable
                  (sorted_columns cls feature_columns) [] Map.empty (Transformer c2t) g of
             (Inl e, s, g') \<Rightarrow> (Inl e, columns_to_tensors s, g')
           | (Inr (output_tensors, column_to_variable), s, g') \<Rightarrow>
               (let predictions_no_bias = math_ops_add_n ops output_tensors;
                    (bias, g'') = variables_Variable (array_ops_zeros ops [num_outputs]) True
                                    (add_variable_collection cls weight_collections)
                                    ''bias_weight'' g';
                    predictions = nn_ops_bias_add ops predictions_no_bias bias
                in (Inr (predictions, column_to_variable, bias), columns_to_tensors s, g''))))"

subsection \<open>infer\_real\_valued\_columns\<close>










subsection \<open>The example columns of the docstrings\<close>

text \<open>
  The columns of the usage examples in the source (lines 57-65 and 314-326): the hashed
  sparse column \<open>query_word\<close>, the bucketized column \<open>age_bucket\<close> over the base feature
  \<open>age\<close>, and their cross \<open>query_age\<close>; and a column whose
  \<open>insert_transformed_feature\<close> writes nothing. A tensor is the row of one example. They
  serve as concrete inputs.
\<close>

datatype example_column = Query_word | Age_bucket | Query_age | Writes_nothing

definition example_insert_query_word ::
  "(example_column ckey \<rightharpoonup> int list) \<Rightarrow> string option \<times> (example_column ckey \<rightharpoonup> int list)" where
  "example_insert_query_word m =
     (case m (Name ''query_word'') of
        None \<Rightarrow> (Some ''KeyError: query_word'', m)
      | Some t \<Rightarrow> (None, m(Column Query_word \<mapsto> map (\<lambda>x. x mod 1000) t)))"

definition example_insert_age_bucket ::
  "(example_column ckey \<rightharpoonup> int list) \<Rightarrow> string option \<times> (example_column ckey \<rightharpoonup> int list)" where
  "example_insert_age_bucket m =
     (case m (Name ''age'') of
        None \<Rightarrow> (Some ''KeyError: age'', m)
      | Some t \<Rightarrow>
          (None, m(Column Age_bucket \<mapsto> map (\<lambda>x. if x < 18 then 0 else if x < 30 then 1 else 2) t)))"

definition example_insert_query_age ::
  "(example_column ckey \<rightharpoonup> int list) \<Rightarrow> string option \<times> (example_column ckey \<rightharpoonup> int list)" where
  "example_insert_query_age m =
     (case (if m (Column Query_word) = None then example_insert_query_word m else (None, m)) of
        (Some msg, m1) \<Rightarrow> (Some msg, m1)
      | (None, m1) \<Rightarrow>
          (case (if m1 (Column Age_bucket) = None then example_insert_age_bucket m1
                 else (None, m1)) of
             (Some msg, m2) \<Rightarrow> (Some msg, m2)
           | (None, m2) \<Rightarrow>
               (case (m2 (Column Query_word), m2 (Column Age_bucket)) of
                  (Some q, Some a) \<Rightarrow>
                    (None, m2(Column Query_age \<mapsto> map2 (\<lambda>x y. (31 * x + y) mod 1000) q a))
                | _ \<Rightarrow> (Some ''KeyError'', m2))))"

fun example_insert ::
  "example_column \<Rightarrow> (example_column ckey \<rightharpoonup> int list)
     \<Rightarrow> string option \<times> (example_column ckey \<rightharpoonup> int list)" where
  "example_insert Query_word m = example_insert_query_word m"
| "example_insert Age_bucket m = example_insert_age_bucket m"
| "example_insert Query_age m = example_insert_query_age m"
| "example_insert Writes_nothing m = (None, m)"

fun example_key :: "example_column \<Rightarrow> nat" where
  "example_key Age_bucket = 1"
| "example_key Query_age = 2"
| "example_key Query_word = 3"
| "example_key Writes_nothing = 4"

fun example_name :: "example_column \<Rightarrow> string" where
  "example_name Age_bucket = ''age_bucket''"
| "example_name Query_age = ''query_age''"
| "example_name Query_word = ''query_word''"
| "example_name Writes_nothing = ''writes_nothing''"

fun example_to_dnn_input_layer ::
  "example_column \<Rightarrow> int list \<Rightarrow> string list option \<Rightarrow> bool \<Rightarrow> int list graph
     \<Rightarrow> (string + int list) \<times> int list graph" where
  "example_to_dnn_input_layer Age_bucket t wc trainable g =
     (Inr (concat (map (\<lambda>b. [if b = 0 then 1 else 0, if b = 1 then 1 else 0,
                             if b = 2 then 1 else 0]) t)), g)"
| "example_to_dnn_input_layer Query_word t wc trainable g =
     (case variables_Variable [1, 2] trainable wc ''query_word_embedding'' g of
        (v, g') \<Rightarrow> (Inr (concat (map (\<lambda>x. map (\<lambda>w. w * x) (initial_value v)) t)), g'))"
| "example_to_dnn_input_layer c t wc trainable g =
     (Inl ''Column is not supported in DNN'', g)"

fun example_to_weighted_sum ::
  "example_column \<Rightarrow> int list \<Rightarrow> nat \<Rightarrow> string list option \<Rightarrow> bool \<Rightarrow> int list graph
     \<Rightarrow> (string + int list \<times> int list variable) \<times> int list graph" where
  "example_to_weighted_sum c t num_outputs wc trainable g =
     (case variables_Variable (replicate num_outputs 1) trainable wc
             (example_name c @ ''_weights'') g of
        (v, g') \<Rightarrow> (Inr (map (\<lambda>w. w * sum_list t) (initial_value v), v), g'))"

definition example_columns :: "(example_column, nat, int list, int list variable) feature_column" where
  "example_columns =
     \<lparr>key = example_key, name = example_name, insert_transformed_feature = example_insert,
      to_dnn_input_layer = example_to_dnn_input_layer,
      to_weighted_sum = example_to_weighted_sum,
      add_variable_collection = add_variables_key\<rparr>"

definition example_ops :: "int list tensor_ops" where
  "example_ops =
     \<lparr>array_ops_concat = (\<lambda>concat_dim values. concat values),
      math_ops_add_n = (\<lambda>inputs. case inputs of [] \<Rightarrow> [] | t # ts \<Rightarrow> foldl (map2 (+)) t ts),
      array_ops_zeros = (\<lambda>shape. replicate (prod_list shape) 0),
      nn_ops_bias_add = (\<lambda>value bias. map2 (+) value (initial_value bias))\<rparr>"

definition example_tensors :: "example_column ckey \<rightharpoonup> int list" where
  "example_tensors = [Name ''age'' \<mapsto> [37], Name ''query_word'' \<mapsto> [4021]]"




section \<open>Properties\<close>

subsection \<open>Duplicate keys\<close>

lemma check_loop_ok:
  "check_loop kf S fs = Inr () \<longleftrightarrow> distinct (map kf fs) \<and> kf ` set fs \<inter> S = {}"
  by (induction fs arbitrary: S) auto

lemma check_loop_dup:
  "\<not> (distinct (map kf fs) \<and> kf ` set fs \<inter> S = {}) \<Longrightarrow>
   \<exists>i<length fs. check_loop kf S fs = Inl (DuplicateKey (kf (fs ! i)))
      \<and> kf (fs ! i) \<in> S \<union> kf ` set (take i fs)
      \<and> distinct (map kf (take i fs)) \<and> kf ` set (take i fs) \<inter> S = {}
      \<and> check_loop kf S (take (Suc i) fs) = check_loop kf S fs"
proof (induction fs arbitrary: S)
  case Nil
  then show ?case by simp
next
  case (Cons f fs)
  show ?case
  proof (cases "kf f \<in> S")
    case True
    then have "check_loop kf S (f # fs) = Inl (DuplicateKey (kf ((f # fs) ! 0)))
      \<and> kf ((f # fs) ! 0) \<in> S \<union> kf ` set (take 0 (f # fs))
      \<and> distinct (map kf (take 0 (f # fs))) \<and> kf ` set (take 0 (f # fs)) \<inter> S = {}
      \<and> check_loop kf S (take (Suc 0) (f # fs)) = check_loop kf S (f # fs)"
      by simp
    then show ?thesis by blast
  next
    case False
    with Cons.prems have "\<not> (distinct (map kf fs) \<and> kf ` set fs \<inter> insert (kf f) S = {})"
      by auto
    from Cons.IH [OF this] obtain i where i: "i < length fs"
      "check_loop kf (insert (kf f) S) fs = Inl (DuplicateKey (kf (fs ! i)))"
      "kf (fs ! i) \<in> insert (kf f) S \<union> kf ` set (take i fs)"
      "distinct (map kf (take i fs))" "kf ` set (take i fs) \<inter> insert (kf f) S = {}"
      "check_loop kf (insert (kf f) S) (take (Suc i) fs) = check_loop kf (insert (kf f) S) fs"
      by blast
    have "Suc i < length (f # fs)" using i(1) by simp
    moreover have "check_loop kf S (f # fs) = Inl (DuplicateKey (kf ((f # fs) ! Suc i)))"
      using False i(2) by simp
    moreover have "kf ((f # fs) ! Suc i) \<in> S \<union> kf ` set (take (Suc i) (f # fs))"
      using i(3) by auto
    moreover have "distinct (map kf (take (Suc i) (f # fs)))"
      using i(4,5) by auto
    moreover have "kf ` set (take (Suc i) (f # fs)) \<inter> S = {}"
      using i(5) False by auto
    moreover have "check_loop kf S (take (Suc (Suc i)) (f # fs)) = check_loop kf S (f # fs)"
      using False i(6) by simp
    ultimately show ?thesis by blast
  qed
qed

subsection \<open>One call of transform\<close>

lemma transform_hit:
  "columns_to_tensors s (Column c) = Some t \<Longrightarrow> transform cls c s = (Inr t, s)"
  by (simp add: transform_def)

lemma transform_miss:
  assumes "columns_to_tensors s (Column c) = None"
    and "insert_transformed_feature cls c (columns_to_tensors s) = (raised, m')"
  shows "transform cls c s =
     ((case raised of
         Some msg \<Rightarrow> Inl (Raised msg)
       | None \<Rightarrow> (case m' (Column c) of
                    None \<Rightarrow> Inl (ColumnNotSupported (name cls c))
                  | Some t \<Rightarrow> Inr t)),
      s\<lparr>columns_to_tensors := m', delegated := delegated s @ [c]\<rparr>)"
  using assms by (simp add: transform_def Let_def split: option.splits)

lemma transform_state:
  assumes "transform cls c s = (r, s')"
  shows "(columns_to_tensors s (Column c) \<noteq> None \<and> s' = s) \<or>
         (columns_to_tensors s (Column c) = None \<and>
          delegated s' = delegated s @ [c] \<and>
          columns_to_tensors s' = snd (insert_transformed_feature cls c (columns_to_tensors s)))"
proof (cases "columns_to_tensors s (Column c)")
  case None
  obtain raised m' where ins: "insert_transformed_feature cls c (columns_to_tensors s) = (raised, m')"
    by (cases "insert_transformed_feature cls c (columns_to_tensors s)")
  from transform_miss [OF None ins] assms None ins show ?thesis by auto
next
  case (Some t)
  from transform_hit [OF Some, of cls] assms Some show ?thesis by simp
qed







subsection \<open>The order of the columns\<close>

lemma sorted_columns_props:
  "sorted (map (key cls) (sorted_columns cls fcs))"
  "distinct (sorted_columns cls fcs)"
  "set (sorted_columns cls fcs) = set fcs"
  by (simp_all add: sorted_columns_def)



subsection \<open>The loops of the builders\<close>



subsection \<open>The example columns keep entries\<close>



subsection \<open>The builders: validation and errors\<close>


lemma check_feature_columns_Inl:
  assumes "\<not> distinct (map (key cls) fcs)"
  shows "\<exists>k\<in>key cls ` set fcs. check_feature_columns cls fcs = Inl (DuplicateKey k)"
proof -
  from assms have "\<not> (distinct (map (key cls) fcs) \<and> key cls ` set fcs \<inter> {} = {})" by simp
  from check_loop_dup [OF this] obtain i where "i < length fcs"
    "check_loop (key cls) {} fcs = Inl (DuplicateKey (key cls (fcs ! i)))" by blast
  then show ?thesis unfolding check_feature_columns_def by auto
qed




subsection \<open>The weighted sum and its bias\<close>

lemma weighted_sum_unfold:
  assumes "check_feature_columns cls fcs = Inr ()"
    and "weighted_loop cls n wc trainable (sorted_columns cls fcs) [] Map.empty (Transformer m) g
           = (Inr (outs, c2v), s, g1)"
  shows "weighted_sum_from_feature_columns ops cls m fcs n wc trainable g =
     (Inr (nn_ops_bias_add ops (math_ops_add_n ops outs)
             (Variable (array_ops_zeros ops [n]) ''bias_weight''),
           c2v, Variable (array_ops_zeros ops [n]) ''bias_weight''),
      columns_to_tensors s,
      snd (variables_Variable (array_ops_zeros ops [n]) True (add_variable_collection cls wc)
             ''bias_weight'' g1))"
  using assms
  by (simp add: weighted_sum_from_feature_columns_def variables_Variable_def Let_def)

lemma weighted_sum_Inr_loop:
  assumes "check_feature_columns cls fcs = Inr ()"
    and "weighted_sum_from_feature_columns ops cls m fcs n wc trainable g
           = (Inr (predictions, c2v, bias), m', g')"
  shows "\<exists>outs s g1.
     weighted_loop cls n wc trainable (sorted_columns cls fcs) [] Map.empty (Transformer m) g
       = (Inr (outs, c2v), s, g1) \<and>
     bias = Variable (array_ops_zeros ops [n]) ''bias_weight'' \<and>
     predictions = nn_ops_bias_add ops (math_ops_add_n ops outs) bias \<and>
     g' = snd (variables_Variable (array_ops_zeros ops [n]) True (add_variable_collection cls wc)
             ''bias_weight'' g1)"
proof -
  obtain r1 s g1 where l: "weighted_loop cls n wc trainable (sorted_columns cls fcs) []
      Map.empty (Transformer m) g = (r1, s, g1)"
    by (cases "weighted_loop cls n wc trainable (sorted_columns cls fcs) [] Map.empty
                 (Transformer m) g")
  show ?thesis
  proof (cases r1)
    case (Inl e)
    with assms l show ?thesis by (simp add: weighted_sum_from_feature_columns_def)
  next
    case (Inr oc)
    obtain outs c2v0 where oc: "oc = (outs, c2v0)" by (cases oc)
    from weighted_sum_unfold [OF assms(1) l [unfolded Inr oc], of ops] assms(2)
    have "c2v0 = c2v" "bias = Variable (array_ops_zeros ops [n]) ''bias_weight''"
      "predictions = nn_ops_bias_add ops (math_ops_add_n ops outs) bias"
      "g' = snd (variables_Variable (array_ops_zeros ops [n]) True (add_variable_collection cls wc)
             ''bias_weight'' g1)"
      by simp_all
    with l Inr oc show ?thesis by blast
  qed
qed

lemma bias_registered_trainable:
  "Variable initial nm \<in> set (get_collection
       (snd (variables_Variable initial True collections nm g)) GraphKeys_TRAINABLE_VARIABLES)"
  by (auto simp: variables_Variable_def get_collection_def Let_def image_iff)

subsection \<open>Inferring real valued columns\<close>



subsection \<open>Runs of the builders on the example columns\<close>


lemma example_weighted_run:
  "fst (weighted_sum_from_feature_columns example_ops example_columns example_tensors
          [Query_word, Age_bucket] 2 None False [])
   = Inr ([23, 23], [Age_bucket \<mapsto> Variable [1, 1] ''age_bucket_weights'',
                     Query_word \<mapsto> Variable [1, 1] ''query_word_weights''],
          Variable [0, 0] ''bias_weight'')"
  "snd (snd (weighted_sum_from_feature_columns example_ops example_columns example_tensors
          [Query_word, Age_bucket] 2 None False []))
   = [(''variables'', Variable [1, 1] ''age_bucket_weights''),
      (''variables'', Variable [1, 1] ''query_word_weights''),
      (''variables'', Variable [0, 0] ''bias_weight''),
      (''trainable_variables'', Variable [0, 0] ''bias_weight'')]"
  by (simp_all add: weighted_sum_from_feature_columns_def check_feature_columns_def
        sorted_columns_def transform_def Transformer_def example_tensors_def example_columns_def
        example_ops_def example_insert_query_word_def example_insert_age_bucket_def
        add_variables_key_def variables_Variable_def GraphKeys_VARIABLES_def
        GraphKeys_TRAINABLE_VARIABLES_def Let_def numeral_2_eq_2)

section \<open>The claims\<close>

text \<open>
  Claim C4. \<open>check_feature_columns\<close> returns without error when the keys of the columns
  are pairwise distinct. Otherwise it raises the duplicate-key error for the key of the
  first column, in the order of the iteration, whose key an earlier column has: the keys
  before that position are pairwise distinct, so the position is the second occurrence
  of its key, and nothing after it is looked at.
\<close>

theorem check_feature_columns_duplicate_keys:
  "(distinct (map (key cls) fcs) \<longrightarrow> check_feature_columns cls fcs = Inr ()) \<and>
   (\<not> distinct (map (key cls) fcs) \<longrightarrow>
      (\<exists>i<length fcs.
         check_feature_columns cls fcs = Inl (DuplicateKey (key cls (fcs ! i))) \<and>
         key cls (fcs ! i) \<in> key cls ` set (take i fcs) \<and>
         distinct (map (key cls) (take i fcs)) \<and>
         check_feature_columns cls (take (Suc i) fcs) = check_feature_columns cls fcs))"
proof (intro conjI impI)
  assume "distinct (map (key cls) fcs)"
  then show "check_feature_columns cls fcs = Inr ()"
    by (simp add: check_feature_columns_def check_loop_ok)
next
  assume "\<not> distinct (map (key cls) fcs)"
  then have "\<not> (distinct (map (key cls) fcs) \<and> key cls ` set fcs \<inter> {} = {})" by simp
  from check_loop_dup [OF this] show "\<exists>i<length fcs.
         check_feature_columns cls fcs = Inl (DuplicateKey (key cls (fcs ! i))) \<and>
         key cls (fcs ! i) \<in> key cls ` set (take i fcs) \<and>
         distinct (map (key cls) (take i fcs)) \<and>
         check_feature_columns cls (take (Suc i) fcs) = check_feature_columns cls fcs"
    unfolding check_feature_columns_def by auto
qed

theorem check_feature_columns_duplicate_keys_witness:
  "check_feature_columns example_columns [Query_word, Age_bucket, Query_age] = Inr () \<and>
   (\<exists>i<3. check_feature_columns example_columns [Query_word, Age_bucket, Query_word, Query_age]
             = Inl (DuplicateKey (example_key ([Query_word, Age_bucket, Query_word, Query_age] ! i))) \<and>
           example_key ([Query_word, Age_bucket, Query_word, Query_age] ! i)
             \<in> example_key ` set (take i [Query_word, Age_bucket, Query_word, Query_age]) \<and>
           distinct (map example_key (take i [Query_word, Age_bucket, Query_word, Query_age])))"
proof -
  have k: "key example_columns = example_key" by (simp add: example_columns_def)
  have 1: "check_feature_columns example_columns [Query_word, Age_bucket, Query_age] = Inr ()"
    using check_feature_columns_duplicate_keys [of example_columns "[Query_word, Age_bucket, Query_age]"]
    by (simp add: k)
  have "\<not> distinct (map (key example_columns) [Query_word, Age_bucket, Query_word, Query_age])"
    by (simp add: k)
  with check_feature_columns_duplicate_keys
         [of example_columns "[Query_word, Age_bucket, Query_word, Query_age]"]
  obtain i where i: "i < length [Query_word, Age_bucket, Query_word, Query_age]"
    "check_feature_columns example_columns [Query_word, Age_bucket, Query_word, Query_age]
       = Inl (DuplicateKey (key example_columns ([Query_word, Age_bucket, Query_word, Query_age] ! i)))"
    "key example_columns ([Query_word, Age_bucket, Query_word, Query_age] ! i)
       \<in> key example_columns ` set (take i [Query_word, Age_bucket, Query_word, Query_age])"
    "distinct (map (key example_columns) (take i [Query_word, Age_bucket, Query_word, Query_age]))"
    by blast
  have "i \<noteq> 3"
  proof
    assume "i = 3"
    with i(4) show False by (simp add: k numeral_3_eq_3)
  qed
  with i(1) have "i < 3" by simp
  with i(2,3,4) 1 show ?thesis unfolding k by blast
qed

text \<open>
  Claim C1, as amended. A column that is itself a key of the dictionary is returned as
  stored, and neither the dictionary nor the trace of delegated columns changes. A
  column that is not itself a key is handed to its \<open>insert_transformed_feature\<close>,
  whatever string keys the dictionary has, and the dictionary is what that method leaves.
\<close>

theorem transform_returns_stored_column:
  "(columns_to_tensors s (Column c) = Some t \<longrightarrow> transform cls c s = (Inr t, s)) \<and>
   (columns_to_tensors s (Column c) = None \<longrightarrow>
      delegated (snd (transform cls c s)) = delegated s @ [c] \<and>
      columns_to_tensors (snd (transform cls c s))
        = snd (insert_transformed_feature cls c (columns_to_tensors s)))"
proof (intro conjI impI)
  assume "columns_to_tensors s (Column c) = Some t"
  then show "transform cls c s = (Inr t, s)" by (rule transform_hit)
next
  assume n: "columns_to_tensors s (Column c) = None"
  have "transform cls c s = (fst (transform cls c s), snd (transform cls c s))" by simp
  from transform_state [OF this] n
  show "delegated (snd (transform cls c s)) = delegated s @ [c]"
    and "columns_to_tensors (snd (transform cls c s))
        = snd (insert_transformed_feature cls c (columns_to_tensors s))"
    by auto
qed

theorem transform_returns_stored_column_witness:
  "transform example_columns Query_word
     \<lparr>columns_to_tensors = example_tensors(Column Query_word \<mapsto> [21]), delegated = []\<rparr>
   = (Inr [21], \<lparr>columns_to_tensors = example_tensors(Column Query_word \<mapsto> [21]), delegated = []\<rparr>) \<and>
   delegated (snd (transform example_columns Query_word (Transformer example_tensors)))
   = [Query_word]"
  using transform_returns_stored_column
          [of "\<lparr>columns_to_tensors = example_tensors(Column Query_word \<mapsto> [21]), delegated = []\<rparr>"
              Query_word "[21]" example_columns]
        transform_returns_stored_column
          [of "Transformer example_tensors" Query_word "[]" example_columns]
  by (simp add: Transformer_def example_tensors_def)

text \<open>
  Claim C1 as stated fails where only the raw string key of the column is present:
  \<open>query_word\<close> is a key of the dictionary under its name, the column object is not.
  \<open>transform\<close> calls the column's method, the dictionary gets a new entry, and the value
  returned is not the one stored under the string key.
\<close>

theorem transform_raw_name_is_no_hit:
  "example_tensors (Name (name example_columns Query_word)) = Some [4021] \<and>
   fst (transform example_columns Query_word (Transformer example_tensors)) = Inr [21] \<and>
   delegated (snd (transform example_columns Query_word (Transformer example_tensors)))
     = [Query_word] \<and>
   columns_to_tensors (snd (transform example_columns Query_word (Transformer example_tensors)))
     (Column Query_word) = Some [21] \<and>
   example_tensors (Column Query_word) = None"
  by (simp add: transform_def Transformer_def example_tensors_def example_columns_def
        example_insert_query_word_def)

text \<open>
  Claim C3. For a column that is not a key of the dictionary, \<open>transform\<close> raises the
  "not supported" error exactly when the column's \<open>insert_transformed_feature\<close> has
  returned and the dictionary still has no entry for the column; when it has returned and
  an entry exists, that entry is the result. (An exception of the method itself
  propagates.)
\<close>

theorem transform_not_supported_iff:
  assumes "columns_to_tensors s (Column c) = None"
    and "insert_transformed_feature cls c (columns_to_tensors s) = (raised, m')"
  shows "(fst (transform cls c s) = Inl (ColumnNotSupported (name cls c))
            \<longleftrightarrow> raised = None \<and> m' (Column c) = None) \<and>
         (\<forall>t. raised = None \<and> m' (Column c) = Some t \<longrightarrow> fst (transform cls c s) = Inr t) \<and>
         (\<forall>msg. raised = Some msg \<longrightarrow> fst (transform cls c s) = Inl (Raised msg)) \<and>
         columns_to_tensors (snd (transform cls c s)) = m'"
  using transform_miss [OF assms] by (auto split: option.splits)

theorem transform_not_supported_iff_witness:
  "fst (transform example_columns Writes_nothing (Transformer example_tensors))
     = Inl (ColumnNotSupported ''writes_nothing'') \<and>
   fst (transform example_columns Age_bucket (Transformer example_tensors)) = Inr [2]"
proof -
  have 1: "columns_to_tensors (Transformer example_tensors) (Column Writes_nothing) = None"
    "columns_to_tensors (Transformer example_tensors) (Column Age_bucket) = None"
    by (simp_all add: Transformer_def example_tensors_def)
  have 2: "insert_transformed_feature example_columns Writes_nothing
             (columns_to_tensors (Transformer example_tensors)) = (None, example_tensors)"
    by (simp add: Transformer_def example_columns_def)
  have 3: "insert_transformed_feature example_columns Age_bucket
             (columns_to_tensors (Transformer example_tensors))
           = (None, example_tensors(Column Age_bucket \<mapsto> [2]))"
    by (simp add: Transformer_def example_columns_def example_insert_age_bucket_def
          example_tensors_def)
  show ?thesis
    using transform_not_supported_iff [OF 1(1) 2] transform_not_supported_iff [OF 1(2) 3]
    by (simp add: example_tensors_def example_columns_def)
qed









text \<open>
  Claim C7 fails for the bias. Whenever \<open>weighted_sum_from_feature_columns\<close> returns, the
  bias variable is in \<open>GraphKeys.TRAINABLE_VARIABLES\<close>, also when the call was made with
  \<open>trainable=False\<close>: the flag reaches the columns' methods and not the constructor of
  the bias. In the run below the column weights, created by the columns with the flag
  they were given, are not in that collection and the bias is.
\<close>

theorem bias_is_trainable_whatever_the_flag:
  assumes "weighted_sum_from_feature_columns ops cls m fcs n wc trainable g
             = (Inr (predictions, c2v, bias), m', g')"
  shows "bias \<in> set (get_collection g' GraphKeys_TRAINABLE_VARIABLES)"
proof -
  have ok: "check_feature_columns cls fcs = Inr ()"
  proof (cases "check_feature_columns cls fcs")
    case (Inl e)
    with assms show ?thesis by (simp add: weighted_sum_from_feature_columns_def)
  next
    case (Inr u)
    then show ?thesis by simp
  qed
  from weighted_sum_Inr_loop [OF ok assms] obtain g1 where
    "bias = Variable (array_ops_zeros ops [n]) ''bias_weight''"
    "g' = snd (variables_Variable (array_ops_zeros ops [n]) True (add_variable_collection cls wc)
             ''bias_weight'' g1)"
    by blast
  then show ?thesis by (simp add: bias_registered_trainable)
qed

theorem bias_is_trainable_whatever_the_flag_witness:
  "Variable [0, 0] ''bias_weight'' \<in> set (get_collection
      (snd (snd (weighted_sum_from_feature_columns example_ops example_columns example_tensors
          [Query_word, Age_bucket] 2 None False []))) GraphKeys_TRAINABLE_VARIABLES) \<and>
   Variable [1, 1] ''query_word_weights'' \<notin> set (get_collection
      (snd (snd (weighted_sum_from_feature_columns example_ops example_columns example_tensors
          [Query_word, Age_bucket] 2 None False []))) GraphKeys_TRAINABLE_VARIABLES)"
proof -
  have run: "weighted_sum_from_feature_columns example_ops example_columns example_tensors
          [Query_word, Age_bucket] 2 None False []
     = (Inr ([23, 23], [Age_bucket \<mapsto> Variable [1, 1] ''age_bucket_weights'',
                     Query_word \<mapsto> Variable [1, 1] ''query_word_weights''],
          Variable [0, 0] ''bias_weight''),
        fst (snd (weighted_sum_from_feature_columns example_ops example_columns example_tensors
          [Query_word, Age_bucket] 2 None False [])),
        snd (snd (weighted_sum_from_feature_columns example_ops example_columns example_tensors
          [Query_word, Age_bucket] 2 None False [])))"
    using example_weighted_run(1) by (metis prod.collapse)
  have 1: "Variable [0, 0] ''bias_weight'' \<in> set (get_collection
      (snd (snd (weighted_sum_from_feature_columns example_ops example_columns example_tensors
          [Query_word, Age_bucket] 2 None False []))) GraphKeys_TRAINABLE_VARIABLES)"
    by (rule bias_is_trainable_whatever_the_flag [OF run])
  have 2: "Variable [1, 1] ''query_word_weights'' \<notin> set (get_collection
      (snd (snd (weighted_sum_from_feature_columns example_ops example_columns example_tensors
          [Query_word, Age_bucket] 2 None False []))) GraphKeys_TRAINABLE_VARIABLES)"
    unfolding example_weighted_run(2)
    by (simp add: get_collection_def GraphKeys_TRAINABLE_VARIABLES_def)
  from 1 2 show ?thesis by blast
qed




text \<open>
  Claim C10. When the same column object occurs more than once in \<open>feature_columns\<close>,
  both builders raise the duplicate-key error and leave the dictionary and the graph as
  they were: the validation reads the collection as given, although the loop would run
  over \<open>set(feature_columns)\<close>, which has the column once.
\<close>

theorem builders_reject_repeated_column:
  assumes "\<not> distinct fcs"
  shows "(\<exists>k\<in>key cls ` set fcs.
            input_from_feature_columns ops cls m fcs wc trainable g = (Inl (DuplicateKey k), m, g) \<and>
            weighted_sum_from_feature_columns ops cls m fcs n wc trainable g
              = (Inl (DuplicateKey k), m, g)) \<and>
         distinct (sorted_columns cls fcs) \<and> set (sorted_columns cls fcs) = set fcs \<and>
         length (sorted_columns cls fcs) < length fcs"
proof -
  from assms have "\<not> distinct (map (key cls) fcs)" by (auto simp: distinct_map)
  from check_feature_columns_Inl [OF this] obtain k where k: "k \<in> key cls ` set fcs"
    "check_feature_columns cls fcs = Inl (DuplicateKey k)" by blast
  have 1: "input_from_feature_columns ops cls m fcs wc trainable g = (Inl (DuplicateKey k), m, g)"
    by (simp add: input_from_feature_columns_def k(2))
  have 2: "weighted_sum_from_feature_columns ops cls m fcs n wc trainable g
              = (Inl (DuplicateKey k), m, g)"
    by (simp add: weighted_sum_from_feature_columns_def k(2))
  have "length (remdups fcs) < length fcs"
  proof (rule le_neq_implies_less)
    show "length (remdups fcs) \<le> length fcs" by (rule length_remdups_leq)
    show "length (remdups fcs) \<noteq> length fcs"
      using assms by (metis distinct_remdups length_remdups_eq)
  qed
  then have 3: "length (sorted_columns cls fcs) < length fcs"
    by (simp add: sorted_columns_def)
  from k(1) 1 2 3 show ?thesis by (auto simp: sorted_columns_props)
qed

theorem builders_reject_repeated_column_witness:
  "input_from_feature_columns example_ops example_columns example_tensors
       [Query_word, Age_bucket, Query_word] None True [] = (Inl (DuplicateKey 3), example_tensors, []) \<and>
   weighted_sum_from_feature_columns example_ops example_columns example_tensors
       [Query_word, Age_bucket, Query_word] 2 None True [] = (Inl (DuplicateKey 3), example_tensors, []) \<and>
   sorted_columns example_columns [Query_word, Age_bucket, Query_word] = [Age_bucket, Query_word]"
proof -
  have d: "\<not> distinct [Query_word, Age_bucket, Query_word]" by simp
  from builders_reject_repeated_column [OF d, of example_columns example_ops example_tensors
         None True "[]" 2]
  obtain k where k:
    "input_from_feature_columns example_ops example_columns example_tensors
       [Query_word, Age_bucket, Query_word] None True [] = (Inl (DuplicateKey k), example_tensors, [])"
    "weighted_sum_from_feature_columns example_ops example_columns example_tensors
       [Query_word, Age_bucket, Query_word] 2 None True [] = (Inl (DuplicateKey k), example_tensors, [])"
    by blast
  have "check_feature_columns example_columns [Query_word, Age_bucket, Query_word]
        = Inl (DuplicateKey 3)"
    by (simp add: check_feature_columns_def example_columns_def)
  then have "fst (input_from_feature_columns example_ops example_columns example_tensors
       [Query_word, Age_bucket, Query_word] None True []) = Inl (DuplicateKey 3)"
    by (simp add: input_from_feature_columns_def)
  with k(1) have "k = 3" by simp
  moreover have "sorted_columns example_columns [Query_word, Age_bucket, Query_word]
       = [Age_bucket, Query_word]"
    by (simp add: sorted_columns_def example_columns_def)
  ultimately show ?thesis using k by simp
qed

end
